theory Spec2Isabelle
  imports Main
begin

section \<open>The signature test of \<open>_tryRestoringPrecompiled\<close>\<close>

text \<open>
  The source tests a payload with the regular expression literal
  \<^verbatim>\<open>/.*"compiler"\w*:\w*\[.*"main"\w*:\w*function/\<close>.
  It is a sequence of literals and of starred character classes, so the pattern is a list
  of such atoms. A string is a list of 8-bit characters; in that range the line
  terminators that \<^verbatim>\<open>.\<close> refuses are LF and CR, and \<^verbatim>\<open>\w\<close> is
  \<^verbatim>\<open>[A-Za-z0-9_]\<close>.
\<close>

datatype cls = Dot | Word

fun in_class :: "cls \<Rightarrow> char \<Rightarrow> bool" where
  "in_class Dot c = (c \<noteq> CHR 0x0A \<and> c \<noteq> CHR 0x0D)"
| "in_class Word c = (let n = of_char c :: nat in
     (48 \<le> n \<and> n \<le> 57) \<or> (65 \<le> n \<and> n \<le> 90) \<or> n = 95 \<or> (97 \<le> n \<and> n \<le> 122))"

datatype atom = Lit string | Star cls

fun drop_prefix :: "string \<Rightarrow> string \<Rightarrow> string option" where
  "drop_prefix [] s = Some s"
| "drop_prefix (c # cs) [] = None"
| "drop_prefix (c # cs) (x # xs) = (if c = x then drop_prefix cs xs else None)"

text \<open>\<open>match_here r s\<close>: some prefix of \<open>s\<close> matches the whole pattern (backtracking).\<close>

fun match_here :: "atom list \<Rightarrow> string \<Rightarrow> bool" where
  "match_here [] s = True"
| "match_here (Lit l # as) s =
     (case drop_prefix l s of None \<Rightarrow> False | Some s' \<Rightarrow> match_here as s')"
| "match_here (Star k # as) [] = match_here as []"
| "match_here (Star k # as) (x # xs) =
     ((in_class k x \<and> match_here (Star k # as) xs) \<or> match_here as (x # xs))"

text \<open>\<open>RegExp.prototype.test\<close> without anchors: a match may start at any position.\<close>

fun test :: "atom list \<Rightarrow> string \<Rightarrow> bool" where
  "test r [] = match_here r []"
| "test r (x # xs) = (match_here r (x # xs) \<or> test r xs)"

definition re :: "atom list" where
  \<open>re = [Star Dot, Lit ''"compiler"'', Star Word, Lit '':'', Star Word, Lit ''['',
         Star Dot, Lit ''"main"'', Star Word, Lit '':'', Star Word, Lit ''function'']\<close>

section \<open>Values, errors and the engine boundary\<close>

datatype jsval = JStr string | JNum int | JBool bool | JNull | JObj "string \<Rightarrow> jsval option"

type_synonym "context" = "string \<rightharpoonup> jsval"

text \<open>
  The functions that a lookup in the store can yield. \<open>Lazy s\<close> is what the engine's
  \<open>compile(s)\<close> returns: for a string it returns at once, and the source is parsed and
  compiled when the function is first called. \<open>Restored f\<close> is what the engine's
  \<open>template(spec)\<close> returns, \<open>f\<close> standing for the engine's own representation of a
  compiled template. \<open>Native n\<close> is the built-in method \<open>n\<close> of \<open>Object.prototype\<close>.
\<close>

datatype 'f jsfun = Lazy string | Restored 'f | Native string

text \<open>
  What \<open>handlebars.partials[path]\<close> can hold: the raw source text that was handed to
  \<open>registerPartial\<close>, a function, or the object \<open>Object.prototype\<close> itself.
\<close>

datatype 'f partial = Source string | Function "'f jsfun" | Prototype

type_synonym decorator = "jsval \<Rightarrow> string + jsval"

datatype error_kind =
  CompileError | FormatError | RenderError | DecoratorError | TemplateNotFoundError

text \<open>
  Modelled from the spec: \<open>lib/appError\<close>, the base class of the five error classes, is
  not among the sources. The spec gives its shape: a message and an optional structured
  context (for instance the offending path), here the fields of the \<open>details\<close> object the
  constructor is given, or \<open>None\<close> when the constructor gets the message alone.
\<close>

record app_error =
  kind :: error_kind
  message :: string
  details :: "(string \<times> string) list option"

definition AppError :: "error_kind \<Rightarrow> string \<Rightarrow> (string \<times> string) list option \<Rightarrow> app_error" where
  "AppError k m d = \<lparr>kind = k, message = m, details = d\<rparr>"

section \<open>The renderer\<close>

record translator =
  getLocale :: string

text \<open>
  \<open>own_partials\<close> are the properties that \<open>registerPartial\<close> has put on the engine's
  \<open>partials\<close> object.
\<close>

record 'f renderer =
  own_partials :: "string \<rightharpoonup> 'f partial"
  translator_of :: "translator option"
  decorators :: "decorator list"

text \<open>
  The engine creates \<open>partials\<close> as a plain object, so a lookup of a name that is not an
  own property goes on to \<open>Object.prototype\<close>: its eleven methods are functions, and
  \<open>__proto__\<close> yields \<open>Object.prototype\<close> itself.
\<close>

definition object_prototype :: "string \<rightharpoonup> 'f partial" where
  "object_prototype name =
     (if name = ''__proto__'' then Some Prototype
      else if name \<in> set [''constructor'', ''__defineGetter__'', ''__defineSetter__'',
                ''hasOwnProperty'', ''__lookupGetter__'', ''__lookupSetter__'',
                ''isPrototypeOf'', ''propertyIsEnumerable'', ''toString'', ''valueOf'',
                ''toLocaleString'']
      then Some (Function (Native name))
      else None)"

text \<open>
  \<open>partials r path\<close> is the value of \<open>this.handlebars.partials[path]\<close>, and
  \<open>partials r path = None\<close> is
  \<^verbatim>\<open>typeof this.handlebars.partials[path] === 'undefined'\<close>.
\<close>

definition partials :: "'f renderer \<Rightarrow> string \<rightharpoonup> 'f partial" where
  "partials r path =
     (case own_partials r path of Some v \<Rightarrow> Some v | None \<Rightarrow> object_prototype path)"

record options =
  preventIndent :: bool

definition handlebarsOptions :: options where
  "handlebarsOptions = \<lparr>preventIndent = True\<rparr>"

text \<open>
  The Handlebars engine is a dependency of the repository; its operations are
  parameters of the model. \<open>Inl m\<close> is an exception whose \<open>message\<close> is \<open>m\<close>.
  \<^item> \<open>hb_parse s\<close> is the parsing and compiling of the source \<open>s\<close> that a function
    returned by \<open>compile(s)\<close> does when it is first called;
  \<^item> \<open>hb_precompile s opts\<close> is \<open>precompile(s, opts)\<close>, which parses at once;
  \<^item> \<open>evalJS r p\<close> is the direct \<open>eval\<close> of \<^verbatim>\<open>template = ${precompiled}\<close>: it runs the
    payload as code inside the renderer, so it yields the artifact object or throws, and
    it may leave the renderer changed;
  \<^item> \<open>hb_template t\<close> is \<open>template(t)\<close>, which checks the artifact and its compiler version;
  \<^item> \<open>hb_exec ps f c\<close> is the run of a compiled template on the context \<open>c\<close> in the engine
    whose partials answer lookups as \<open>ps\<close> does: a running template resolves the
    partials it includes in the same store. Writes of the engine into its store during
    a run are not modelled.
\<close>

record ('o, 'f) engine =
  hb_parse :: "string \<Rightarrow> string + 'f"
  hb_precompile :: "string \<Rightarrow> options \<Rightarrow> string + string"
  evalJS :: "'f renderer \<Rightarrow> string \<Rightarrow> (string + 'o) \<times> 'f renderer"
  hb_template :: "'o \<Rightarrow> string + 'f"
  hb_exec :: "(string \<rightharpoonup> 'f partial) \<Rightarrow> 'f \<Rightarrow> context \<Rightarrow> string + string"

text \<open>\<open>handlebars.compile\<close> applied to a string: no parsing yet, so nothing to throw.\<close>

definition hb_compile :: "string \<Rightarrow> string + 'f jsfun" where
  "hb_compile template = Inr (Lazy template)"

text \<open>
  The call \<open>f(context)\<close> of a function, with \<open>this\<close> undefined (the module is in strict
  mode). A template returns a string. Of the built-in methods, \<open>toString\<close> returns the
  tag of \<open>undefined\<close>, \<open>constructor\<close> (that is \<open>Object\<close>) returns the object it is given,
  and the others throw a TypeError because \<open>this\<close> is not an object (the wording of the
  message varies with the method).
\<close>

fun call ::
  "('o, 'f) engine \<Rightarrow> (string \<rightharpoonup> 'f partial) \<Rightarrow> 'f jsfun \<Rightarrow> context \<Rightarrow> string + jsval" where
  "call e ps (Lazy s) context =
     (case hb_parse e s of
        Inl m \<Rightarrow> Inl m
      | Inr f \<Rightarrow> (case hb_exec e ps f context of Inl m \<Rightarrow> Inl m | Inr out \<Rightarrow> Inr (JStr out)))"
| "call e ps (Restored f) context =
     (case hb_exec e ps f context of Inl m \<Rightarrow> Inl m | Inr out \<Rightarrow> Inr (JStr out))"
| "call e ps (Native name) context =
     (if name = ''toString'' then Inr (JStr ''[object Undefined]'')
      else if name = ''constructor'' then Inr (JObj context)
      else Inl ''Cannot convert undefined or null to object'')"

definition setTranslator :: "'f renderer \<Rightarrow> translator option \<Rightarrow> 'f renderer" where
  "setTranslator r t = r\<lparr>translator_of := t\<rparr>"

definition getTranslator :: "'f renderer \<Rightarrow> translator option" where
  "getTranslator r = translator_of r"

definition addDecorator :: "'f renderer \<Rightarrow> decorator \<Rightarrow> 'f renderer" where
  "addDecorator r d = r\<lparr>decorators := decorators r @ [d]\<rparr>"

text \<open>
  The engine's \<open>registerPartial(path, v)\<close> assigns \<open>partials[path] = v\<close>. \<open>addTemplates\<close>,
  its only caller, gets there for a path whose lookup is undefined, so the assignment
  creates an own property (the name is not \<open>__proto__\<close>, whose lookup is defined).
\<close>

definition registerPartial :: "'f renderer \<Rightarrow> string \<Rightarrow> 'f partial \<Rightarrow> 'f renderer" where
  "registerPartial r path v = r\<lparr>own_partials := (own_partials r)(path \<mapsto> v)\<rparr>"

definition isTemplateLoaded :: "'f renderer \<Rightarrow> string \<Rightarrow> bool" where
  "isTemplateLoaded r path = (partials r path \<noteq> None)"

text \<open>
  \<open>_tryRestoringPrecompiled\<close> returns the raw text or the restored function, or throws;
  the renderer comes back with the result because the \<open>eval\<close> ran inside it.
\<close>

definition tryRestoringPrecompiled ::
  "('o, 'f) engine \<Rightarrow> 'f renderer \<Rightarrow> string \<Rightarrow> (string + 'f partial) \<times> 'f renderer" where
  "tryRestoringPrecompiled e r precompiled =
     (if \<not> test re precompiled then (Inr (Source precompiled), r)
      else case evalJS e r precompiled of
             (Inl m, r') \<Rightarrow> (Inl m, r')
           | (Inr t, r') \<Rightarrow> (case hb_template e t of
                               Inl m \<Rightarrow> (Inl m, r')
                             | Inr f \<Rightarrow> (Inr (Function (Restored f)), r')))"

text \<open>
  \<open>addTemplates\<close> walks the entries of the object in iteration order. A throw leaves the
  entries registered so far in the store, so the renderer is returned with the error.
\<close>

fun addTemplates ::
  "('o, 'f) engine \<Rightarrow> 'f renderer \<Rightarrow> (string \<times> string) list \<Rightarrow> 'f renderer \<times> app_error option" where
  "addTemplates e r [] = (r, None)"
| "addTemplates e r ((path, template) # rest) =
     (if partials r path \<noteq> None then addTemplates e r rest
      else case tryRestoringPrecompiled e r template of
             (Inl m, r') \<Rightarrow> (r', Some (AppError FormatError m None))
           | (Inr t, r') \<Rightarrow> addTemplates e (registerPartial r' path t) rest)"

text \<open>
  The function returned by \<open>getPreProcessor\<close>: \<open>processed\<close> starts as the empty object and
  gets one key per entry; the first failing \<open>precompile\<close> throws.
\<close>

fun preProcess ::
  "('o, 'f) engine \<Rightarrow> (string \<times> string) list \<Rightarrow> (string \<rightharpoonup> string) \<Rightarrow> app_error + (string \<rightharpoonup> string)" where
  "preProcess e [] processed = Inr processed"
| "preProcess e ((path, template) # rest) processed =
     (case hb_precompile e template handlebarsOptions of
        Inl m \<Rightarrow> Inl (AppError CompileError m (Some [(''path'', path)]))
      | Inr s \<Rightarrow> preProcess e rest (processed(path \<mapsto> s)))"

definition getPreProcessor ::
  "('o, 'f) engine \<Rightarrow> (string \<times> string) list \<Rightarrow> app_error + (string \<rightharpoonup> string)" where
  "getPreProcessor e = (\<lambda>templates. preProcess e templates Map.empty)"

text \<open>
  What a call of \<open>render\<close> or \<open>renderString\<close> leaves behind: the value returned or the
  error thrown, the caller's context object after the call (\<open>None\<close> when the caller passed
  none), and the calls made in order: \<open>Executed c\<close> is the template function called
  with context \<open>c\<close>, \<open>Decorated v\<close> a decorator called with \<open>v\<close>.
\<close>

datatype event = Executed "context" | Decorated jsval

record outcome =
  returned :: "app_error + jsval"
  caller_context :: "context option"
  calls :: "event list"

text \<open>
  The call \<open>template(context)\<close> in \<open>render\<close>: a stored source text and the prototype object
  are not callable, and the call throws a TypeError before anything runs.
\<close>

fun invoke ::
  "('o, 'f) engine \<Rightarrow> (string \<rightharpoonup> 'f partial) \<Rightarrow> 'f partial \<Rightarrow> context
     \<Rightarrow> (string + jsval) \<times> event list" where
  "invoke e ps (Function f) context = (call e ps f context, [Executed context])"
| "invoke e ps (Source s) context = (Inl ''template is not a function'', [])"
| "invoke e ps Prototype context = (Inl ''template is not a function'', [])"

text \<open>The loop over \<open>_decorators\<close>; a throw leaves the loop.\<close>

fun applyDecorators :: "decorator list \<Rightarrow> jsval \<Rightarrow> (string + jsval) \<times> event list" where
  "applyDecorators [] result = (Inr result, [])"
| "applyDecorators (fn # fns) result =
     (case fn result of
        Inl m \<Rightarrow> (Inl m, [Decorated result])
      | Inr result' \<Rightarrow>
          (let (res, evs) = applyDecorators fns result' in (res, Decorated result # evs)))"

definition augment :: "'f renderer \<Rightarrow> string \<Rightarrow> context \<Rightarrow> context" where
  "augment r path context =
     (let context = context(''template'' \<mapsto> JStr path)
      in case translator_of r of
           None \<Rightarrow> context
         | Some t \<Rightarrow> context(''locale_name'' \<mapsto> JStr (getLocale t)))"

definition render ::
  "('o, 'f) engine \<Rightarrow> 'f renderer \<Rightarrow> string \<Rightarrow> context option \<Rightarrow> outcome" where
  "render e r path context0 =
     (let context = augment r path (case context0 of None \<Rightarrow> Map.empty | Some c \<Rightarrow> c);
          caller = map_option (\<lambda>_. context) context0
      in case partials r path of
           None \<Rightarrow>
             \<lparr>returned = Inl (AppError TemplateNotFoundError (''template not found: '' @ path) None),
              caller_context = caller, calls = []\<rparr>
         | Some template \<Rightarrow>
             (case invoke e (partials r) template context of
                (Inl m, evs) \<Rightarrow>
                  \<lparr>returned = Inl (AppError RenderError m None),
                   caller_context = caller, calls = evs\<rparr>
              | (Inr result, evs) \<Rightarrow>
                  (case applyDecorators (decorators r) result of
                     (Inl m, evs') \<Rightarrow>
                       \<lparr>returned = Inl (AppError DecoratorError m None),
                        caller_context = caller, calls = evs @ evs'\<rparr>
                   | (Inr result', evs') \<Rightarrow>
                       \<lparr>returned = Inr result', caller_context = caller, calls = evs @ evs'\<rparr>)))"

definition renderString ::
  "('o, 'f) engine \<Rightarrow> 'f renderer \<Rightarrow> string \<Rightarrow> context option \<Rightarrow> outcome" where
  "renderString e r template context0 =
     (let context = (case context0 of None \<Rightarrow> Map.empty | Some c \<Rightarrow> c)
      in case hb_compile template of
           Inl m \<Rightarrow>
             \<lparr>returned = Inl (AppError CompileError m None),
              caller_context = context0, calls = []\<rparr>
         | Inr t \<Rightarrow>
             (case call e (partials r) t context of
                Inl m \<Rightarrow>
                  \<lparr>returned = Inl (AppError RenderError m None),
                   caller_context = context0, calls = [Executed context]\<rparr>
              | Inr result \<Rightarrow>
                  \<lparr>returned = Inr result, caller_context = context0, calls = [Executed context]\<rparr>))"

section \<open>A small engine to run the renderer on\<close>

text \<open>
  An engine for three kinds of source: plain text, which a template prints as it is; a
  single variable \<^verbatim>\<open>{{name}}\<close>, which prints the field of that name when it is a string
  without characters that the engine escapes, and nothing when the field is missing; and
  the unbalanced block \<^verbatim>\<open>{{#if}}\<close>, which does not parse. Its serialization has the
  shape of the real engine's output and carries the source text, which \<open>eval\<close> gives
  back; its \<open>eval\<close> leaves the renderer as it is.
\<close>

datatype demo_ast = Text string | Var string

definition demo_parse :: "string \<Rightarrow> string + demo_ast" where
  "demo_parse s =
     (if s = ''{{#if}}'' then Inl ''Parse error on line 1''
      else case s of
             CHR ''{'' # CHR ''{'' # rest \<Rightarrow>
               (if 2 < length rest \<and> drop (length rest - 2) rest = ''}}''
                   \<and> list_all (in_class Word) (take (length rest - 2) rest)
                then Inr (Var (take (length rest - 2) rest))
                else Inr (Text s))
           | _ \<Rightarrow> Inr (Text s))"

fun demo_exec :: "(string \<rightharpoonup> demo_ast partial) \<Rightarrow> demo_ast \<Rightarrow> context \<Rightarrow> string + string" where
  "demo_exec ps (Text s) context = Inr s"
| "demo_exec ps (Var x) context =
     (case context x of Some (JStr v) \<Rightarrow> Inr v | _ \<Rightarrow> Inr [])"

definition demo_prefix :: string where
  \<open>demo_prefix = ''{"compiler":[7,">= 4.0.0"],"main":function(){return "''\<close>

definition demo_suffix :: string where
  \<open>demo_suffix = ''"},"useData":true}''\<close>

definition demo_serialize :: "string \<Rightarrow> string" where
  "demo_serialize s = demo_prefix @ s @ demo_suffix"

definition demo_engine :: "(string, demo_ast) engine" where
  "demo_engine =
     \<lparr>hb_parse = demo_parse,
      hb_precompile = (\<lambda>s opts.
         case demo_parse s of Inl m \<Rightarrow> Inl m | Inr f \<Rightarrow> Inr (demo_serialize s)),
      evalJS = (\<lambda>r p.
         if length p < length demo_prefix + length demo_suffix
         then (Inl ''Unexpected end of input'', r)
         else (Inr (take (length p - length demo_prefix - length demo_suffix)
                      (drop (length demo_prefix) p)), r)),
      hb_template = (\<lambda>a. if a = [] then Inl ''Unknown template object: undefined''
                          else demo_parse a),
      hb_exec = demo_exec\<rparr>"

text \<open>The renderer as its constructor leaves it: nothing registered.\<close>

definition empty_renderer :: "demo_ast renderer" where
  "empty_renderer = \<lparr>own_partials = Map.empty, translator_of = None, decorators = []\<rparr>"

definition en_US :: translator where
  "en_US = \<lparr>getLocale = ''en-US''\<rparr>"

text \<open>
  Decorators that take a string and always return one, for stating what a chain
  computes: \<open>chain_inputs fs s\<close> lists the string each of them is called with, in order.
\<close>

definition pure_decorator :: "(string \<Rightarrow> string) \<Rightarrow> decorator" where
  "pure_decorator f v = (case v of JStr s \<Rightarrow> Inr (JStr (f s)) | _ \<Rightarrow> Inl ''not a string'')"

fun chain_inputs :: "(string \<Rightarrow> string) list \<Rightarrow> string \<Rightarrow> string list" where
  "chain_inputs [] s = []"
| "chain_inputs (f # fs) s = s # chain_inputs fs (f s)"

text \<open>The decorators \<open>s -> s + "A"\<close> and \<open>s -> s + "B"\<close>, one that throws, and a renderer
  that holds a template printing \<open>X\<close> under the path \<open>p\<close>.\<close>

definition d1 :: "string \<Rightarrow> string" where
  "d1 s = s @ ''A''"

definition d2 :: "string \<Rightarrow> string" where
  "d2 s = s @ ''B''"

definition throwing :: decorator where
  "throwing v = Inl ''boom''"

definition r_X :: "demo_ast renderer" where
  "r_X = registerPartial empty_renderer ''p'' (Function (Restored (Text ''X'')))"

text \<open>
  Payloads for the signature test: one that passes it and cannot be restored, the
  engine's compact serialization, and the same object written with blanks around the
  colons.
\<close>

definition corrupt :: string where
  \<open>corrupt = ''{"compiler":[7],"main":function''\<close>

definition spaced :: string where
  \<open>spaced = ''{"compiler" : [7,">= 4.0.0"], "main" : function(){return "Hello"},"useData":true}''\<close>

definition compact :: string where
  \<open>compact = ''{"compiler":[7,">= 4.0.0"],"main":function(){return "Hello"},"useData":true}''\<close>

text \<open>Strings of \<^verbatim>\<open>\w\<close> characters, and strings without a line terminator.\<close>

definition words :: "string \<Rightarrow> bool" where
  "words w = (\<forall>c \<in> set w. in_class Word c)"

definition one_line :: "string \<Rightarrow> bool" where
  "one_line w = (\<forall>c \<in> set w. in_class Dot c)"

section \<open>Properties\<close>

subsection \<open>What the signature test accepts\<close>

lemma drop_prefix_iff: "drop_prefix l s = Some s' \<longleftrightarrow> s = l @ s'"
  by (induction l s rule: drop_prefix.induct) auto

lemma match_here_Lit:
  "match_here (Lit l # as) s \<longleftrightarrow> (\<exists>s'. s = l @ s' \<and> match_here as s')"
proof -
  have self: "drop_prefix l (l @ s') = Some s'" for s'
    using drop_prefix_iff by blast
  show ?thesis
    by (auto simp add: drop_prefix_iff self split: option.splits)
qed

lemma match_here_Star:
  "match_here (Star k # as) s \<longleftrightarrow>
     (\<exists>w s'. s = w @ s' \<and> (\<forall>c \<in> set w. in_class k c) \<and> match_here as s')"
proof (induction s)
  case Nil
  show ?case by simp
next
  case (Cons x xs)
  show ?case
  proof
    assume "match_here (Star k # as) (x # xs)"
    then consider (step) "in_class k x" "match_here (Star k # as) xs"
      | (stop) "match_here as (x # xs)"
      by auto
    then show "\<exists>w s'. x # xs = w @ s' \<and> (\<forall>c \<in> set w. in_class k c) \<and> match_here as s'"
    proof cases
      case step
      from step(2) Cons obtain w s' where
        "xs = w @ s'" "\<forall>c \<in> set w. in_class k c" "match_here as s'"
        by blast
      with step(1) have "x # xs = (x # w) @ s' \<and> (\<forall>c \<in> set (x # w). in_class k c)
          \<and> match_here as s'"
        by simp
      then show ?thesis by blast
    next
      case stop
      then have "x # xs = [] @ (x # xs) \<and> (\<forall>c \<in> set []. in_class k c)
          \<and> match_here as (x # xs)"
        by simp
      then show ?thesis by blast
    qed
  next
    assume "\<exists>w s'. x # xs = w @ s' \<and> (\<forall>c \<in> set w. in_class k c) \<and> match_here as s'"
    then obtain w s' where ws: "x # xs = w @ s'" "\<forall>c \<in> set w. in_class k c"
      "match_here as s'"
      by blast
    show "match_here (Star k # as) (x # xs)"
    proof (cases w)
      case Nil
      with ws have "match_here as (x # xs)" by simp
      then show ?thesis by simp
    next
      case (Cons y w')
      with ws have "y = x" "xs = w' @ s'" "in_class k x" "\<forall>c \<in> set w'. in_class k c"
        by auto
      with ws(3) Cons.IH show ?thesis by auto
    qed
  qed
qed

lemma test_iff: "test r s \<longleftrightarrow> (\<exists>a b. s = a @ b \<and> match_here r b)"
proof (induction s)
  case Nil
  show ?case by simp
next
  case (Cons x xs)
  show ?case
  proof
    assume "test r (x # xs)"
    then consider "match_here r (x # xs)" | "test r xs" by auto
    then show "\<exists>a b. x # xs = a @ b \<and> match_here r b"
    proof cases
      case 1
      then have "x # xs = [] @ (x # xs) \<and> match_here r (x # xs)" by simp
      then show ?thesis by blast
    next
      case 2
      with Cons obtain a b where "xs = a @ b" "match_here r b" by blast
      then have "x # xs = (x # a) @ b \<and> match_here r b" by simp
      then show ?thesis by blast
    qed
  next
    assume "\<exists>a b. x # xs = a @ b \<and> match_here r b"
    then obtain a b where ab: "x # xs = a @ b" "match_here r b" by blast
    show "test r (x # xs)"
    proof (cases a)
      case Nil
      with ab have "match_here r (x # xs)" by simp
      then show ?thesis by simp
    next
      case (Cons y a')
      with ab have "xs = a' @ b" by simp
      with ab(2) Cons.IH show ?thesis by auto
    qed
  qed
qed

lemma test_Star_first: "test (Star k # as) s \<longleftrightarrow> test as s"
proof
  assume "test (Star k # as) s"
  then obtain a w s' where "s = a @ w @ s'" "match_here as s'"
    unfolding test_iff match_here_Star by blast
  then have "s = (a @ w) @ s' \<and> match_here as s'" by simp
  then show "test as s" unfolding test_iff by blast
next
  assume "test as s"
  then obtain a b where "s = a @ b" "match_here as b"
    unfolding test_iff by blast
  then have "s = a @ [] @ b \<and> (\<forall>c \<in> set []. in_class k c) \<and> match_here as b" by simp
  then show "test (Star k # as) s" unfolding test_iff match_here_Star by blast
qed

lemma test_start: "test r s \<longleftrightarrow> (\<exists>a b. s = a @ b \<and> match_here r b \<and> True)"
  by (simp add: test_iff)

lemma walk_Lit:
  "(\<exists>b. s = p @ b \<and> match_here (Lit l # as) b \<and> Q)
     \<longleftrightarrow> (\<exists>b. s = (p @ l) @ b \<and> match_here as b \<and> Q)"
  unfolding match_here_Lit by auto

lemma walk_Star:
  "(\<exists>b. s = p @ b \<and> match_here (Star k # as) b \<and> Q)
     \<longleftrightarrow> (\<exists>w b. s = (p @ w) @ b \<and> match_here as b \<and> (\<forall>c \<in> set w. in_class k c) \<and> Q)"
  unfolding match_here_Star by auto

lemma test_re_iff:
  \<open>test re s \<longleftrightarrow>
     (\<exists>a w1 w2 b w3 w4 z.
        s = a @ ''"compiler"'' @ w1 @ '':'' @ w2 @ ''['' @ b @ ''"main"'' @ w3 @ '':'' @ w4
              @ ''function'' @ z
        \<and> words w4 \<and> words w3 \<and> one_line b \<and> words w2 \<and> words w1)\<close>
  unfolding re_def test_Star_first
  unfolding test_start walk_Lit walk_Star match_here.simps(1) words_def one_line_def
  by (simp only: append_assoc simp_thms)

subsection \<open>Lookups in the store\<close>

lemma partials_registerPartial:
  "partials (registerPartial r p v) q = (if q = p then Some v else partials r q)"
  by (simp add: partials_def registerPartial_def)

lemma partials_setTranslator: "partials (setTranslator r t) = partials r"
  by (simp add: partials_def setTranslator_def fun_eq_iff)

lemma partials_addDecorator: "partials (addDecorator r d) = partials r"
  by (simp add: partials_def addDecorator_def fun_eq_iff)

lemma partials_empty_toString:
  "partials empty_renderer ''toString'' = Some (Function (Native ''toString''))"
  by (simp add: partials_def empty_renderer_def object_prototype_def)

lemma partials_empty_ordinary:
  "partials empty_renderer ''a'' = None" "partials empty_renderer ''p'' = None"
  "partials empty_renderer ''q'' = None" "partials empty_renderer ''nope'' = None"
  "partials empty_renderer ''good'' = None" "partials empty_renderer ''bad'' = None"
  "partials empty_renderer ''other'' = None"
  "partials empty_renderer ''unregistered/path'' = None"
  by (simp_all add: partials_def empty_renderer_def object_prototype_def)

subsection \<open>The context that \<open>render\<close> builds\<close>

lemma augment_template: "augment r path c ''template'' = Some (JStr path)"
  by (simp add: augment_def Let_def split: option.split)

lemma augment_locale:
  "translator_of r = Some t \<Longrightarrow> augment r path c ''locale_name'' = Some (JStr (getLocale t))"
  by (simp add: augment_def Let_def)

lemma augment_other:
  "k \<noteq> ''template'' \<Longrightarrow> k \<noteq> ''locale_name'' \<Longrightarrow> augment r path c k = c k"
  by (simp add: augment_def Let_def split: option.split)

lemma applyDecorators_no_Executed: "Executed c \<notin> set (snd (applyDecorators ds s))"
proof (induction ds arbitrary: s)
  case Nil
  show ?case by simp
next
  case (Cons d ds)
  show ?case
  proof (cases "d s")
    case (Inl m)
    then show ?thesis by simp
  next
    case (Inr s')
    with Cons [of s'] show ?thesis by (simp add: case_prod_unfold Let_def)
  qed
qed

lemma render_undefined_lookup:
  "partials r path = None \<Longrightarrow>
     returned (render e r path context0) =
       Inl (AppError TemplateNotFoundError (''template not found: '' @ path) None)
     \<and> calls (render e r path context0) = []"
  by (simp add: render_def Let_def)

lemma render_throws:
  assumes "partials r path = Some t"
    and "invoke e (partials r) t
           (augment r path (case context0 of None \<Rightarrow> Map.empty | Some c \<Rightarrow> c)) = (Inl m, evs)"
  shows "returned (render e r path context0) = Inl (AppError RenderError m None)
         \<and> calls (render e r path context0) = evs"
  using assms by (simp add: render_def Let_def)

lemma render_returns:
  assumes "partials r path = Some t"
    and "invoke e (partials r) t
           (augment r path (case context0 of None \<Rightarrow> Map.empty | Some c \<Rightarrow> c)) = (Inr v, evs)"
    and "applyDecorators (decorators r) v = (res, evs')"
  shows "returned (render e r path context0)
           = (case res of Inl m \<Rightarrow> Inl (AppError DecoratorError m None) | Inr v' \<Rightarrow> Inr v')
         \<and> calls (render e r path context0) = evs @ evs'"
  using assms by (cases res) (simp_all add: render_def Let_def)

text \<open>
  C10. \<open>render\<close> writes into the caller's context object before it looks the template up:
  when the path is missing and \<open>TemplateNotFoundError\<close> is thrown, the caller's context
  already has \<open>template\<close> equal to the path and, with a translator configured,
  \<open>locale_name\<close> equal to the translator's locale; its other fields are untouched.
\<close>

theorem render_missing_mutates_context:
  "partials r path = None \<Longrightarrow>
     returned (render e r path (Some c)) =
       Inl (AppError TemplateNotFoundError (''template not found: '' @ path) None)
     \<and> (\<exists>c'. caller_context (render e r path (Some c)) = Some c'
           \<and> c' ''template'' = Some (JStr path)
           \<and> (\<forall>t. translator_of r = Some t \<longrightarrow> c' ''locale_name'' = Some (JStr (getLocale t)))
           \<and> (\<forall>k. k \<noteq> ''template'' \<and> k \<noteq> ''locale_name'' \<longrightarrow> c' k = c k))"
  by (simp add: render_def Let_def augment_template augment_locale augment_other)

theorem render_missing_mutates_context_witness:
  "partials (setTranslator empty_renderer (Some en_US)) ''nope'' = None
   \<and> translator_of (setTranslator empty_renderer (Some en_US)) = Some en_US
   \<and> (\<exists>c'. caller_context (render demo_engine (setTranslator empty_renderer (Some en_US)) ''nope''
                 (Some [''x'' \<mapsto> JNum 1])) = Some c'
          \<and> c' ''template'' = Some (JStr ''nope'')
          \<and> c' ''locale_name'' = Some (JStr ''en-US''))"
proof -
  let ?r = "setTranslator empty_renderer (Some en_US) :: demo_ast renderer"
  have a: "partials ?r ''nope'' = None"
    by (simp add: partials_setTranslator partials_empty_ordinary)
  have b: "translator_of ?r = Some en_US"
    by (simp add: setTranslator_def)
  have c: "getLocale en_US = ''en-US''"
    by (simp add: en_US_def)
  from render_missing_mutates_context [OF a, of demo_engine "[''x'' \<mapsto> JNum 1]"] b c
  show ?thesis using a by auto
qed

text \<open>
  C3. The store is a plain object, so the lookup of the path \<open>toString\<close>, which was never
  registered, yields the built-in method: \<open>render\<close> throws no \<open>TemplateNotFoundError\<close>,
  calls the method and then the decorator, and returns the decorated tag.
\<close>

theorem render_inherited_name:
  "own_partials (addDecorator empty_renderer (pure_decorator d1)) ''toString'' = None
   \<and> returned (render demo_engine (addDecorator empty_renderer (pure_decorator d1))
        ''toString'' (Some Map.empty)) = Inr (JStr ''[object Undefined]A'')
   \<and> calls (render demo_engine (addDecorator empty_renderer (pure_decorator d1))
        ''toString'' (Some Map.empty))
       = [Executed [''template'' \<mapsto> JStr ''toString''], Decorated (JStr ''[object Undefined]'')]"
proof -
  let ?r = "addDecorator empty_renderer (pure_decorator d1) :: demo_ast renderer"
  let ?c = "[''template'' \<mapsto> JStr ''toString'']"
  have own: "own_partials ?r ''toString'' = None"
    by (simp add: addDecorator_def empty_renderer_def)
  have look: "partials ?r ''toString'' = Some (Function (Native ''toString''))"
    by (simp only: partials_addDecorator partials_empty_toString)
  have ds: "decorators ?r = [pure_decorator d1]"
    by (simp add: addDecorator_def empty_renderer_def)
  have tr: "translator_of ?r = None"
    by (simp add: addDecorator_def empty_renderer_def)
  have aug: "augment ?r ''toString'' (case Some Map.empty of None \<Rightarrow> Map.empty | Some c \<Rightarrow> c) = ?c"
    by (simp add: augment_def tr)
  have inv: "invoke demo_engine (partials ?r) (Function (Native ''toString'')) ?c
               = (Inr (JStr ''[object Undefined]''), [Executed ?c])"
    by simp
  have dec: "applyDecorators (decorators ?r) (JStr ''[object Undefined]'')
               = (Inr (JStr ''[object Undefined]A''), [Decorated (JStr ''[object Undefined]'')])"
    by (simp add: ds pure_decorator_def d1_def)
  from render_returns [OF look, of demo_engine "Some Map.empty", unfolded aug, OF inv dec]
  show ?thesis using own by simp
qed

subsection \<open>The decorator chain\<close>

lemma applyDecorators_pure:
  "applyDecorators (map pure_decorator fs) (JStr s) =
     (Inr (JStr (fold (\<lambda>f. f) fs s)), map Decorated (map JStr (chain_inputs fs s)))"
  by (induction fs arbitrary: s) (simp_all add: pure_decorator_def)

lemma applyDecorators_throw:
  "d (JStr (fold (\<lambda>f. f) fs s)) = Inl m \<Longrightarrow>
   applyDecorators (map pure_decorator fs @ d # rest) (JStr s) =
     (Inl m, map Decorated (map JStr (chain_inputs fs s)) @ [Decorated (JStr (fold (\<lambda>f. f) fs s))])"
  by (induction fs arbitrary: s) (simp_all add: pure_decorator_def)

text \<open>
  C4. When the template returns \<open>s\<close>, \<open>render\<close> calls the decorators in registration
  order, each with the output of the one before it, and returns the last output; when
  a decorator throws with message \<open>m\<close> after the ones before it returned, \<open>render\<close>
  throws a \<open>DecoratorError\<close> with message \<open>m\<close> and the decorators after it are never
  called. \<open>addDecorator\<close> appends to the chain.
\<close>

theorem render_decorator_chain:
  assumes "partials r path = Some (Function t)"
    and "c = augment r path (case context0 of None \<Rightarrow> Map.empty | Some c0 \<Rightarrow> c0)"
    and "call e (partials r) t c = Inr (JStr s)"
  shows "(decorators r = map pure_decorator fs \<longrightarrow>
            returned (render e r path context0) = Inr (JStr (fold (\<lambda>f. f) fs s))
            \<and> calls (render e r path context0)
                = Executed c # map Decorated (map JStr (chain_inputs fs s)))
       \<and> (decorators r = map pure_decorator fs @ d # rest
            \<and> d (JStr (fold (\<lambda>f. f) fs s)) = Inl m \<longrightarrow>
            returned (render e r path context0) = Inl (AppError DecoratorError m None)
            \<and> calls (render e r path context0) =
                Executed c # map Decorated (map JStr (chain_inputs fs s))
                  @ [Decorated (JStr (fold (\<lambda>f. f) fs s))])
       \<and> decorators (addDecorator r d) = decorators r @ [d]"
  using assms
  by (simp add: render_def Let_def applyDecorators_pure applyDecorators_throw addDecorator_def)

theorem render_decorator_chain_witness:
  "returned (render demo_engine (addDecorator (addDecorator r_X (pure_decorator d1)) (pure_decorator d2))
      ''p'' None) = Inr (JStr ''XAB'')
   \<and> returned (render demo_engine (addDecorator (addDecorator r_X throwing) (pure_decorator d2))
        ''p'' None)
       = Inl (AppError DecoratorError ''boom'' None)
   \<and> length (calls (render demo_engine (addDecorator (addDecorator r_X throwing) (pure_decorator d2))
        ''p'' None)) = 2"
proof -
  let ?ok = "addDecorator (addDecorator r_X (pure_decorator d1)) (pure_decorator d2)"
  let ?ko = "addDecorator (addDecorator r_X throwing) (pure_decorator d2)"
  let ?X = "Restored (Text ''X'') :: demo_ast jsfun"
  have p0: "partials r_X ''p'' = Some (Function ?X)"
    by (simp add: r_X_def partials_registerPartial)
  have p1: "partials ?ok ''p'' = Some (Function ?X)"
    and p2: "partials ?ko ''p'' = Some (Function ?X)"
    by (simp_all only: partials_addDecorator p0)
  have h: "call demo_engine ps ?X c = Inr (JStr ''X'')" for ps c
    by (simp add: demo_engine_def)
  have ds1: "decorators ?ok = map pure_decorator [d1, d2]"
    by (simp add: addDecorator_def r_X_def registerPartial_def empty_renderer_def)
  have ds2: "decorators ?ko = map pure_decorator [] @ throwing # [pure_decorator d2]"
    by (simp add: addDecorator_def r_X_def registerPartial_def empty_renderer_def)
  have t: "throwing (JStr (fold (\<lambda>f. f) [] ''X'')) = Inl ''boom''"
    by (simp add: throwing_def)
  from render_decorator_chain [OF p1 refl h, where fs = "[d1, d2]"] ds1
  have "returned (render demo_engine ?ok ''p'' None) = Inr (JStr (fold (\<lambda>f. f) [d1, d2] ''X''))"
    by blast
  then have a: "returned (render demo_engine ?ok ''p'' None) = Inr (JStr ''XAB'')"
    by (simp add: d1_def d2_def)
  from render_decorator_chain [OF p2 refl h, where fs = "[]" and d = throwing
      and rest = "[pure_decorator d2]" and m = "''boom''"] ds2 t
  have b: "returned (render demo_engine ?ko ''p'' None) = Inl (AppError DecoratorError ''boom'' None)
           \<and> calls (render demo_engine ?ko ''p'' None) =
               Executed (augment ?ko ''p'' Map.empty) # map Decorated (map JStr (chain_inputs [] ''X''))
                 @ [Decorated (JStr (fold (\<lambda>f. f) [] ''X''))]"
    by simp
  from a b show ?thesis by simp
qed

subsection \<open>Rendering a registered function\<close>

text \<open>
  For a path whose lookup yields a function, \<open>render\<close> calls it once, first of all calls,
  with the context extended by \<open>template\<close> and, with a translator, \<open>locale_name\<close>, and what
  that call returns or throws decides the outcome.
\<close>

lemma render_calls_function:
  assumes "partials r path = Some (Function t)"
    and "c = augment (setTranslator r tr) path (case context0 of None \<Rightarrow> Map.empty | Some c0 \<Rightarrow> c0)"
  shows "c ''template'' = Some (JStr path)"
    and "\<forall>l. tr = Some l \<longrightarrow> c ''locale_name'' = Some (JStr (getLocale l))"
    and "\<exists>evs. calls (render e (setTranslator r tr) path context0) = Executed c # evs
           \<and> (\<forall>c'. Executed c' \<notin> set evs)"
    and "returned (render e (setTranslator r tr) path context0) =
           (case call e (partials r) t c of
              Inl m \<Rightarrow> Inl (AppError RenderError m None)
            | Inr v \<Rightarrow>
                (case fst (applyDecorators (decorators r) v) of
                   Inl m \<Rightarrow> Inl (AppError DecoratorError m None)
                 | Inr v' \<Rightarrow> Inr v'))"
proof -
  let ?r = "setTranslator r tr"
  have tr: "translator_of ?r = tr" and ds: "decorators ?r = decorators r"
    by (simp_all add: setTranslator_def)
  have ps: "partials ?r path = Some (Function t)"
    using assms(1) by (simp add: partials_setTranslator)
  show "c ''template'' = Some (JStr path)"
    unfolding assms(2) by (rule augment_template)
  show "\<forall>l. tr = Some l \<longrightarrow> c ''locale_name'' = Some (JStr (getLocale l))"
    unfolding assms(2) using tr by (auto simp add: augment_locale)
  show "\<exists>evs. calls (render e ?r path context0) = Executed c # evs
           \<and> (\<forall>c'. Executed c' \<notin> set evs)"
  proof (cases "call e (partials ?r) t c")
    case (Inl m)
    then show ?thesis using ps assms(2) by (simp add: render_def Let_def)
  next
    case (Inr v)
    obtain res evs where ad: "applyDecorators (decorators ?r) v = (res, evs)"
      by (cases "applyDecorators (decorators ?r) v")
    have "\<forall>c'. Executed c' \<notin> set evs"
      using applyDecorators_no_Executed [of _ "decorators ?r" v] ad by simp
    then show ?thesis using ps Inr ad assms(2)
      by (cases res) (simp_all add: render_def Let_def)
  qed
  show "returned (render e ?r path context0) =
           (case call e (partials r) t c of
              Inl m \<Rightarrow> Inl (AppError RenderError m None)
            | Inr v \<Rightarrow>
                (case fst (applyDecorators (decorators r) v) of
                   Inl m \<Rightarrow> Inl (AppError DecoratorError m None)
                 | Inr v' \<Rightarrow> Inr v'))"
    using ps assms(2)
    by (simp add: render_def Let_def ds partials_setTranslator split: sum.splits prod.splits)
qed

subsection \<open>Running the small engine\<close>

lemma test_compact: "test re compact"
  unfolding compact_def by code_simp

lemma test_spaced: "\<not> test re spaced"
  unfolding spaced_def by code_simp

lemma test_corrupt: "test re corrupt"
  unfolding corrupt_def by code_simp

lemma not_test_Hello: "\<not> test re ''Hello''"
  by code_simp

lemma not_test_Hello_name: "\<not> test re ''Hello {{name}}''"
  by code_simp

lemma not_test_locale: "\<not> test re ''{{locale_name}}''"
  by code_simp

lemma test_demo_Hello: "test re (demo_serialize ''Hello'')"
  unfolding demo_serialize_def demo_prefix_def demo_suffix_def by code_simp

lemma test_demo_locale: "test re (demo_serialize ''{{locale_name}}'')"
  unfolding demo_serialize_def demo_prefix_def demo_suffix_def by code_simp

lemma demo_parse_if: "demo_parse ''{{#if}}'' = Inl ''Parse error on line 1''"
  by (simp add: demo_parse_def)

lemma demo_parse_Hello: "demo_parse ''Hello'' = Inr (Text ''Hello'')"
  by (simp add: demo_parse_def)

lemma demo_parse_locale: "demo_parse ''{{locale_name}}'' = Inr (Var ''locale_name'')"
  by (simp add: demo_parse_def)


lemma demo_evalJS_roundtrip: "evalJS demo_engine r (demo_serialize s) = (Inr s, r)"
  by (simp add: demo_engine_def demo_serialize_def)

lemma demo_evalJS_corrupt: "evalJS demo_engine r corrupt = (Inl ''Unexpected end of input'', r)"
  by (simp add: demo_engine_def corrupt_def demo_prefix_def demo_suffix_def)

lemma restore_raw: "\<not> test re s \<Longrightarrow> tryRestoringPrecompiled e r s = (Inr (Source s), r)"
  by (simp only: tryRestoringPrecompiled_def simp_thms if_True)

lemma restore_signed:
  "test re s \<Longrightarrow> tryRestoringPrecompiled e r s =
     (case evalJS e r s of
        (Inl m, r') \<Rightarrow> (Inl m, r')
      | (Inr t, r') \<Rightarrow> (case hb_template e t of
                          Inl m \<Rightarrow> (Inl m, r')
                        | Inr f \<Rightarrow> (Inr (Function (Restored f)), r')))"
  by (simp only: tryRestoringPrecompiled_def simp_thms if_False)

lemma demo_restore_Hello:
  "tryRestoringPrecompiled demo_engine r (demo_serialize ''Hello'')
     = (Inr (Function (Restored (Text ''Hello''))), r)"
  by (simp add: restore_signed [OF test_demo_Hello] demo_evalJS_roundtrip)
     (simp add: demo_engine_def demo_parse_Hello)

lemma demo_restore_locale:
  "tryRestoringPrecompiled demo_engine r (demo_serialize ''{{locale_name}}'')
     = (Inr (Function (Restored (Var ''locale_name''))), r)"
  by (simp add: restore_signed [OF test_demo_locale] demo_evalJS_roundtrip)
     (simp add: demo_engine_def demo_parse_locale)

lemma demo_restore_corrupt:
  "tryRestoringPrecompiled demo_engine r corrupt = (Inl ''Unexpected end of input'', r)"
  by (simp add: restore_signed [OF test_corrupt] demo_evalJS_corrupt)

text \<open>
  C1. The detector accepts the engine's compact serialization and returns the template
  text \<open>Hello {{name}}\<close> unchanged, but the same object literal written with blanks
  around the colons fails the signature test and is returned as raw source.
\<close>

theorem detector_refuses_blanks:
  "test re compact
   \<and> \<not> test re spaced
   \<and> tryRestoringPrecompiled demo_engine empty_renderer spaced
        = (Inr (Source spaced), empty_renderer)
   \<and> tryRestoringPrecompiled demo_engine empty_renderer ''Hello {{name}}''
        = (Inr (Source ''Hello {{name}}''), empty_renderer)"
  using test_compact test_spaced not_test_Hello_name
  by (simp only: restore_raw simp_thms)

subsection \<open>The preprocessor\<close>





subsection \<open>The template store\<close>

text \<open>
  The lemmas of this subsection are about payloads whose \<open>eval\<close> leaves the renderer as
  it is, as the evaluation of an object literal does.
\<close>

lemma restore_keeps_renderer:
  assumes "\<And>r p. snd (evalJS e r p) = r"
  shows "snd (tryRestoringPrecompiled e r x) = r"
proof -
  obtain res r' where ev: "evalJS e r x = (res, r')" by (cases "evalJS e r x")
  with assms [of r x] have "r' = r" by simp
  with ev show ?thesis
    by (simp add: tryRestoringPrecompiled_def split: sum.splits)
qed

lemma addTemplates_step:
  assumes "\<And>r p. snd (evalJS e r p) = r"
  shows "addTemplates e r ((q, t) # ts) =
     (if partials r q \<noteq> None then addTemplates e r ts
      else case fst (tryRestoringPrecompiled e r t) of
             Inl m \<Rightarrow> (r, Some (AppError FormatError m None))
           | Inr u \<Rightarrow> addTemplates e (registerPartial r q u) ts)"
proof -
  obtain res r' where tr: "tryRestoringPrecompiled e r t = (res, r')"
    by (cases "tryRestoringPrecompiled e r t")
  with restore_keeps_renderer [OF assms, of r t] have "r' = r" by simp
  with tr show ?thesis by (cases res) simp_all
qed

lemma addTemplates_keeps:
  assumes pure: "\<And>r p. snd (evalJS e r p) = r"
  shows "partials r p = Some v \<Longrightarrow> partials (fst (addTemplates e r ts)) p = Some v"
proof (induction ts arbitrary: r)
  case Nil
  then show ?case by simp
next
  case (Cons x ts)
  obtain q t where x: "x = (q, t)" by (cases x)
  show ?case
  proof (cases "partials r q \<noteq> None")
    case True
    then show ?thesis using x Cons by simp
  next
    case False
    then have qp: "q \<noteq> p" using Cons.prems by auto
    show ?thesis
    proof (cases "fst (tryRestoringPrecompiled e r t)")
      case (Inl m)
      then show ?thesis using x False Cons.prems by (simp add: addTemplates_step [OF pure] del: addTemplates.simps(2))
    next
      case (Inr u)
      have "partials (registerPartial r q u) p = Some v"
        using qp Cons.prems by (simp add: partials_registerPartial)
      from Cons.IH [OF this] show ?thesis
        using x False Inr by (simp add: addTemplates_step [OF pure] del: addTemplates.simps(2))
    qed
  qed
qed

lemma addTemplates_all_loaded:
  "\<forall>q \<in> fst ` set ts. partials r q \<noteq> None \<Longrightarrow> addTemplates e r ts = (r, None)"
  by (induction ts) auto

lemma addTemplates_untouched:
  assumes pure: "\<And>r p. snd (evalJS e r p) = r"
  shows "partials r p = None \<Longrightarrow> p \<notin> fst ` set ts \<Longrightarrow>
    partials (fst (addTemplates e r ts)) p = None"
proof (induction ts arbitrary: r)
  case Nil
  then show ?case by simp
next
  case (Cons x ts)
  obtain q t where x: "x = (q, t)" by (cases x)
  have qp: "q \<noteq> p" and rest: "p \<notin> fst ` set ts" using Cons.prems(2) x by auto
  show ?case
  proof (cases "partials r q \<noteq> None")
    case True
    then show ?thesis using x Cons.IH [OF Cons.prems(1) rest] by simp
  next
    case False
    show ?thesis
    proof (cases "fst (tryRestoringPrecompiled e r t)")
      case (Inl m)
      then show ?thesis using x False Cons.prems by (simp add: addTemplates_step [OF pure] del: addTemplates.simps(2))
    next
      case (Inr u)
      have "partials (registerPartial r q u) p = None"
        using qp Cons.prems by (simp add: partials_registerPartial)
      from Cons.IH [OF this rest] show ?thesis
        using x False Inr by (simp add: addTemplates_step [OF pure] del: addTemplates.simps(2))
    qed
  qed
qed

lemma addTemplates_append:
  "addTemplates e r (ts @ us) =
     (case addTemplates e r ts of
        (r', None) \<Rightarrow> addTemplates e r' us
      | (r', Some err) \<Rightarrow> (r', Some err))"
proof (induction ts arbitrary: r)
  case Nil
  show ?case by simp
next
  case (Cons x ts)
  obtain q t where x: "x = (q, t)" by (cases x)
  show ?case using Cons x
    by (simp split: sum.splits prod.splits)
qed

text \<open>
  The first entry for a path that is not loaded decides what the path is bound to: the
  result of restoring its payload, or nothing when restoring throws, and then the call
  throws the \<open>FormatError\<close>.
\<close>

lemma addTemplates_first_entry:
  assumes pure: "\<And>r p. snd (evalJS e r p) = r"
    and "partials r p = None" and "p \<notin> fst ` set pre"
    and "addTemplates e r pre = (r', None)"
  shows "fst (tryRestoringPrecompiled e r' x) = Inr v \<longrightarrow>
           partials (fst (addTemplates e r (pre @ (p, x) # rest))) p = Some v"
    and "fst (tryRestoringPrecompiled e r' x) = Inl m \<longrightarrow>
           addTemplates e r (pre @ (p, x) # rest) = (r', Some (AppError FormatError m None))
           \<and> partials r' p = None"
proof -
  have none: "partials r' p = None"
    using addTemplates_untouched [OF pure assms(2,3)] assms(4) by simp
  have split: "addTemplates e r (pre @ (p, x) # rest) = addTemplates e r' ((p, x) # rest)"
    using assms(4) by (simp add: addTemplates_append)
  show "fst (tryRestoringPrecompiled e r' x) = Inr v \<longrightarrow>
           partials (fst (addTemplates e r (pre @ (p, x) # rest))) p = Some v"
  proof
    assume ok: "fst (tryRestoringPrecompiled e r' x) = Inr v"
    have "partials (registerPartial r' p v) p = Some v"
      by (simp add: partials_registerPartial)
    from addTemplates_keeps [OF pure this, of rest] show
      "partials (fst (addTemplates e r (pre @ (p, x) # rest))) p = Some v"
      using split none ok by (simp add: addTemplates_step [OF pure] del: addTemplates.simps(2))
  qed
  show "fst (tryRestoringPrecompiled e r' x) = Inl m \<longrightarrow>
           addTemplates e r (pre @ (p, x) # rest) = (r', Some (AppError FormatError m None))
           \<and> partials r' p = None"
    using split none by (simp add: addTemplates_step [OF pure] del: addTemplates.simps(2))
qed

lemma addTemplates_error_shape:
  "snd (addTemplates e r ts) = Some err \<Longrightarrow> kind err = FormatError \<and> details err = None"
proof (induction ts arbitrary: r)
  case Nil
  then show ?case by simp
next
  case (Cons x ts)
  obtain q t where x: "x = (q, t)" by (cases x)
  show ?case using Cons x
    by (auto simp add: AppError_def split: if_splits sum.splits prod.splits)
qed

text \<open>
  C2. The store is a plain object, so the name \<open>toString\<close> counts as loaded in a renderer
  in which nothing was registered: \<open>addTemplates\<close> skips the entry for it without an
  error, and the path stays bound to the built-in method, not to what the entry gives.
  An ordinary path is not loaded before, and is bound to the first entry's result after.
\<close>

theorem addTemplates_skips_inherited_name:
  "isTemplateLoaded empty_renderer ''toString''
   \<and> addTemplates demo_engine empty_renderer [(''toString'', ''Hello'')] = (empty_renderer, None)
   \<and> partials (fst (addTemplates demo_engine empty_renderer [(''toString'', ''Hello'')])) ''toString''
       = Some (Function (Native ''toString''))
   \<and> \<not> isTemplateLoaded empty_renderer ''a''
   \<and> partials (fst (addTemplates demo_engine empty_renderer [(''a'', ''Hello'')])) ''a''
       = Some (Source ''Hello'')"
proof -
  have raw: "tryRestoringPrecompiled demo_engine r ''Hello'' = (Inr (Source ''Hello''), r)" for r
    using not_test_Hello by (rule restore_raw)
  show ?thesis
    by (simp add: isTemplateLoaded_def partials_empty_toString partials_empty_ordinary raw
        partials_registerPartial)
qed

text \<open>
  C5. A payload that passes the signature test and cannot be restored makes
  \<open>addTemplates\<close> throw a \<open>FormatError\<close> that carries the message of the failure and no
  details: the error is the same whatever the path of the failing entry is. The entry
  before it stays registered.
\<close>

theorem addTemplates_error_lacks_path:
  "snd (addTemplates demo_engine empty_renderer [(''good'', ''Hello''), (''bad'', corrupt)])
     = Some \<lparr>kind = FormatError, message = ''Unexpected end of input'', details = None\<rparr>
   \<and> snd (addTemplates demo_engine empty_renderer [(''good'', ''Hello''), (''other'', corrupt)])
     = Some \<lparr>kind = FormatError, message = ''Unexpected end of input'', details = None\<rparr>
   \<and> isTemplateLoaded
        (fst (addTemplates demo_engine empty_renderer [(''good'', ''Hello''), (''bad'', corrupt)]))
        ''good''
   \<and> getPreProcessor demo_engine [(''good'', ''Hello''), (''bad'', ''{{#if}}'')]
     = Inl \<lparr>kind = CompileError, message = ''Parse error on line 1'',
            details = Some [(''path'', ''bad'')]\<rparr>"
proof -
  have raw: "tryRestoringPrecompiled demo_engine r ''Hello'' = (Inr (Source ''Hello''), r)" for r
    using not_test_Hello by (rule restore_raw)
  have pre: "getPreProcessor demo_engine [(''good'', ''Hello''), (''bad'', ''{{#if}}'')]
     = Inl \<lparr>kind = CompileError, message = ''Parse error on line 1'',
            details = Some [(''path'', ''bad'')]\<rparr>"
    by (simp add: AppError_def getPreProcessor_def demo_engine_def demo_parse_if demo_parse_Hello)
  show ?thesis
    by (simp add: raw demo_restore_corrupt pre partials_empty_ordinary partials_registerPartial
        isTemplateLoaded_def AppError_def)
qed

subsection \<open>Registering a serialization and registering the source\<close>

lemma register_raw_Hello:
  "fst (addTemplates demo_engine empty_renderer [(''p'', ''Hello'')])
     = registerPartial empty_renderer ''p'' (Source ''Hello'')"
  using restore_raw [OF not_test_Hello, of demo_engine empty_renderer]
  by (simp add: partials_empty_ordinary)

lemma register_serialized_Hello:
  "fst (addTemplates demo_engine empty_renderer [(''p'', demo_serialize ''Hello'')])
     = registerPartial empty_renderer ''p'' (Function (Restored (Text ''Hello'')))"
  by (simp add: partials_empty_ordinary demo_restore_Hello)

lemma register_raw_locale:
  "fst (addTemplates demo_engine empty_renderer [(''p'', ''{{locale_name}}'')])
     = registerPartial empty_renderer ''p'' (Source ''{{locale_name}}'')"
  using restore_raw [OF not_test_locale, of demo_engine empty_renderer]
  by (simp add: partials_empty_ordinary)

lemma register_serialized_locale:
  "fst (addTemplates demo_engine empty_renderer [(''p'', demo_serialize ''{{locale_name}}'')])
     = registerPartial empty_renderer ''p'' (Function (Restored (Var ''locale_name'')))"
  by (simp add: partials_empty_ordinary demo_restore_locale)

lemma render_source:
  "partials r path = Some (Source s) \<Longrightarrow>
     returned (render e r path context0) = Inl (AppError RenderError ''template is not a function'' None)
     \<and> calls (render e r path context0) = []"
  by (simp add: render_def Let_def)

text \<open>
  C7. With the small engine, the serialization of \<open>Hello\<close> registered under \<open>p\<close> renders as
  \<open>Hello\<close>, and \<open>renderString\<close> renders the source \<open>Hello\<close> as \<open>Hello\<close>; the source \<open>Hello\<close>
  registered under \<open>p\<close> is stored as text, and \<open>render\<close> throws a \<open>RenderError\<close>.
\<close>

theorem raw_source_not_rendered:
  "hb_precompile demo_engine ''Hello'' handlebarsOptions = Inr (demo_serialize ''Hello'')
   \<and> returned (render demo_engine (fst (addTemplates demo_engine empty_renderer
         [(''p'', demo_serialize ''Hello'')])) ''p'' None) = Inr (JStr ''Hello'')
   \<and> returned (renderString demo_engine empty_renderer ''Hello'' None) = Inr (JStr ''Hello'')
   \<and> returned (render demo_engine (fst (addTemplates demo_engine empty_renderer
         [(''p'', ''Hello'')])) ''p'' None)
       = Inl \<lparr>kind = RenderError, message = ''template is not a function'', details = None\<rparr>"
proof -
  have pre: "hb_precompile demo_engine ''Hello'' handlebarsOptions = Inr (demo_serialize ''Hello'')"
    by (simp add: demo_engine_def demo_parse_Hello)
  have a: "returned (render demo_engine (fst (addTemplates demo_engine empty_renderer
         [(''p'', demo_serialize ''Hello'')])) ''p'' None) = Inr (JStr ''Hello'')"
  proof -
    let ?r = "registerPartial empty_renderer ''p'' (Function (Restored (Text ''Hello'')))"
    have look: "partials ?r ''p'' = Some (Function (Restored (Text ''Hello'')))"
      by (simp add: partials_registerPartial)
    have inv: "invoke demo_engine ps (Function (Restored (Text ''Hello''))) c
                 = (Inr (JStr ''Hello''), [Executed c])" for ps c
      by (simp add: demo_engine_def)
    have dec: "applyDecorators (decorators ?r) v = (Inr v, [])" for v
      by (simp add: registerPartial_def empty_renderer_def)
    from render_returns [where e = demo_engine and ?context0.0 = None, OF look inv dec] show ?thesis
      unfolding register_serialized_Hello by simp
  qed
  have s: "returned (renderString demo_engine empty_renderer ''Hello'' None) = Inr (JStr ''Hello'')"
    by (simp add: renderString_def hb_compile_def demo_engine_def demo_parse_Hello)
  have b: "returned (render demo_engine (fst (addTemplates demo_engine empty_renderer
         [(''p'', ''Hello'')])) ''p'' None)
       = Inl \<lparr>kind = RenderError, message = ''template is not a function'', details = None\<rparr>"
    unfolding register_raw_Hello
    using render_source [of "registerPartial empty_renderer ''p'' (Source ''Hello'')" "''p''"
        "''Hello''" demo_engine None]
    by (simp add: partials_registerPartial AppError_def)
  from pre a s b show ?thesis by blast
qed

text \<open>
  C6. A path registered from raw source is loaded, yet \<open>render\<close> executes nothing for
  it: with a translator set it throws a \<open>RenderError\<close> and makes no call, so no template
  sees \<open>template\<close> or \<open>locale_name\<close>. The same source registered as its serialization is
  executed and prints the locale.
\<close>

theorem render_raw_registration_executes_nothing:
  "isTemplateLoaded (setTranslator (fst (addTemplates demo_engine empty_renderer
       [(''p'', ''{{locale_name}}'')])) (Some en_US)) ''p''
   \<and> returned (render demo_engine (setTranslator (fst (addTemplates demo_engine empty_renderer
       [(''p'', ''{{locale_name}}'')])) (Some en_US)) ''p'' (Some Map.empty))
       = Inl \<lparr>kind = RenderError, message = ''template is not a function'', details = None\<rparr>
   \<and> calls (render demo_engine (setTranslator (fst (addTemplates demo_engine empty_renderer
       [(''p'', ''{{locale_name}}'')])) (Some en_US)) ''p'' (Some Map.empty)) = []
   \<and> returned (render demo_engine (setTranslator (fst (addTemplates demo_engine empty_renderer
       [(''p'', demo_serialize ''{{locale_name}}'')])) (Some en_US)) ''p'' (Some Map.empty))
       = Inr (JStr ''en-US'')"
proof -
  let ?raw = "setTranslator (registerPartial empty_renderer ''p'' (Source ''{{locale_name}}''))
                (Some en_US)"
  let ?ser = "setTranslator (registerPartial empty_renderer ''p''
                (Function (Restored (Var ''locale_name'')))) (Some en_US)"
  have look: "partials ?raw ''p'' = Some (Source ''{{locale_name}}'')"
    by (simp add: partials_setTranslator partials_registerPartial)
  have loaded: "isTemplateLoaded ?raw ''p''"
    by (simp add: isTemplateLoaded_def look)
  have raw: "returned (render demo_engine ?raw ''p'' (Some Map.empty))
               = Inl \<lparr>kind = RenderError, message = ''template is not a function'', details = None\<rparr>
             \<and> calls (render demo_engine ?raw ''p'' (Some Map.empty)) = []"
    using render_source [OF look, of demo_engine "Some Map.empty"] by (simp add: AppError_def)
  have ser: "returned (render demo_engine ?ser ''p'' (Some Map.empty)) = Inr (JStr ''en-US'')"
  proof -
    have look': "partials ?ser ''p'' = Some (Function (Restored (Var ''locale_name'')))"
      by (simp add: partials_setTranslator partials_registerPartial)
    have tr: "translator_of ?ser = Some en_US"
      by (simp add: setTranslator_def)
    have aug: "augment ?ser ''p'' c ''locale_name'' = Some (JStr ''en-US'')" for c
      using augment_locale [OF tr] by (simp add: en_US_def)
    have inv: "invoke demo_engine ps (Function (Restored (Var ''locale_name'')))
                 (augment ?ser ''p'' c)
                 = (Inr (JStr ''en-US''), [Executed (augment ?ser ''p'' c)])" for ps c
      by (simp add: demo_engine_def aug)
    have dec: "applyDecorators (decorators ?ser) v = (Inr v, [])" for v
      by (simp add: setTranslator_def registerPartial_def empty_renderer_def)
    from render_returns [where e = demo_engine and ?context0.0 = "Some Map.empty", OF look' inv dec]
    show ?thesis
      by simp
  qed
  show ?thesis
    unfolding register_raw_locale register_serialized_locale
    using loaded raw ser by blast
qed

subsection \<open>Rendering a string\<close>

lemma renderString_outcome:
  "renderString e r src c0 =
     (let c = (case c0 of None \<Rightarrow> Map.empty | Some c' \<Rightarrow> c')
      in \<lparr>returned = (case call e (partials r) (Lazy src) c of
                         Inl m \<Rightarrow> Inl (AppError RenderError m None)
                       | Inr v \<Rightarrow> Inr v),
          caller_context = c0, calls = [Executed c]\<rparr>)"
  by (simp add: renderString_def hb_compile_def Let_def split: sum.splits)

lemma renderString_never_CompileError:
  "returned (renderString e r src c0) = Inl err \<Longrightarrow> kind err = RenderError"
  by (auto simp add: renderString_outcome Let_def AppError_def split: sum.splits)

text \<open>
  C8. The engine's \<open>compile\<close> does not parse, so the source \<^verbatim>\<open>{{#if}}\<close>, which does not
  compile, passes the \<open>try\<close> around \<open>compile\<close> and fails when the returned function is
  called: \<open>renderString\<close> throws a \<open>RenderError\<close>, not a \<open>CompileError\<close>. The preprocessor,
  whose \<open>precompile\<close> parses at once, throws the \<open>CompileError\<close> for the same source.
\<close>

theorem renderString_parse_error_is_RenderError:
  "returned (renderString demo_engine empty_renderer ''{{#if}}'' (Some Map.empty))
     = Inl \<lparr>kind = RenderError, message = ''Parse error on line 1'', details = None\<rparr>
   \<and> calls (renderString demo_engine empty_renderer ''{{#if}}'' (Some Map.empty))
       = [Executed Map.empty]
   \<and> getPreProcessor demo_engine [(''bad'', ''{{#if}}'')]
       = Inl \<lparr>kind = CompileError, message = ''Parse error on line 1'',
              details = Some [(''path'', ''bad'')]\<rparr>"
  by (simp add: renderString_outcome demo_engine_def demo_parse_if AppError_def
      getPreProcessor_def)

end
